theory Spec2Isabelle
  imports Main "HOL-Library.Sublist"
begin

section \<open>Data model\<close>

text \<open>
  The scanner of \<^verbatim>\<open>regex.py\<close> loads named regular expressions from the YAML files of a
  directory and tests tokens against each of them. Three libraries stand behind the program
  and are not part of it: the YAML parser, the regex engine and the file system. The model
  takes what they return as data:
  \<^item> a parsed YAML document is a value of \<open>yaml\<close>: the null, boolean, integer, string, list and
    mapping values that \<^verbatim>\<open>yaml.safe_load\<close> builds. The other values it can build (floats, dates,
    sets, and the byte strings of \<^verbatim>\<open>!!binary\<close>) are not modelled: the rule file format has a
    string for the regex, and every rule of the model holds a pattern compiled from a string;
  \<^item> the regex engine is a pair of parameters, \<open>re_compile\<close> for \<^verbatim>\<open>re.compile\<close> on a string, with
    its three outcomes (the compiled pattern, \<^verbatim>\<open>re.error\<close>, or another exception), and
    \<open>re_search\<close> for \<^verbatim>\<open>Pattern.search\<close>, the engine's unanchored search (true when it returns a
    match object);
  \<^item> a rules directory is the list of its entries in the order the directory scan yields them,
    each with what opening and parsing it gives; a token file is missing, unreadable or a list
    of lines.
  Strings are lists of \<open>char\<close>, the code points below 256.
\<close>

datatype yaml =
    YNull
  | YBool bool
  | YInt int
  | YStr string
  | YList "yaml list"
  | YMap "(yaml \<times> yaml) list"

text \<open>The exceptions that the program does not catch.\<close>

datatype py_error =
    TypeError | AttributeError | KeyError | OSError
  | OverflowError | RecursionError | ValueError

text \<open>What \<^verbatim>\<open>re.compile\<close> does on a string: it returns the compiled pattern, raises
  \<^verbatim>\<open>re.error\<close> (the one exception that line 75 catches), or raises another exception, such as
  \<^verbatim>\<open>OverflowError\<close> on a repetition count that is too large.\<close>

datatype 'r compile_result = Compiled 'r | ReError | Raises py_error

text \<open>What \<^verbatim>\<open>open(file)\<close> followed by \<^verbatim>\<open>yaml.safe_load(f)\<close> gives for one file: an exception with
  its message, or the parsed document.\<close>

datatype load_result = Failed string | Parsed yaml

datatype token_file = Missing | Unreadable py_error | Lines "string list"

text \<open>One constructor for each \<^verbatim>\<open>print\<close> call of the program (the colour codes that
  \<^verbatim>\<open>Color.wrap\<close> adds around the text are left out).\<close>

datatype out =
    NoYamlFiles string            \<comment> \<open>line 49, with the rules directory\<close>
  | LoadFailed string string      \<comment> \<open>line 57, with the file and the exception's text\<close>
  | MatchIn string                \<comment> \<open>line 98, with the file's base name\<close>
  | MatchName yaml                \<comment> \<open>line 100, with the rule's name\<close>
  | NoMatches                     \<comment> \<open>line 103\<close>
  | InputFileNotFound             \<comment> \<open>line 110\<close>
  | Separator                     \<comment> \<open>lines 123 and 136\<close>
  | TokenLine string              \<comment> \<open>lines 124 and 190\<close>
  | ScanComplete                  \<comment> \<open>line 137\<close>
  | TokensScanned nat             \<comment> \<open>line 138\<close>
  | TotalMatches nat              \<comment> \<open>line 139\<close>
  | Help                          \<comment> \<open>line 177\<close>
  | LoadingRules                  \<comment> \<open>line 180\<close>
  | NoValidRules                  \<comment> \<open>line 184\<close>
  | LoadedPatterns nat            \<comment> \<open>line 187\<close>

text \<open>A rule is a name with a compiled pattern; the rule set is the \<^verbatim>\<open>defaultdict(list)\<close> of
  the program, kept as an association list in insertion order.\<close>

type_synonym 'r rule = "yaml \<times> 'r"
type_synonym 'r ruleset = "(string \<times> 'r rule list) list"

record args =
  arg_token :: "string option"
  arg_file :: "string option"
  arg_directory :: string
  arg_no_color :: bool

record filesystem =
  rule_dirs :: "string \<Rightarrow> (string \<times> load_result) list"
  token_files :: "string \<Rightarrow> token_file"

text \<open>How a run of \<open>main\<close> ends: with an exit status and what it printed, or with an uncaught
  exception (what was printed before it is not tracked).\<close>

datatype result = Finished nat "out list" | Crashed py_error

section \<open>Python's operations on parsed values\<close>

text \<open>Truth value of an object, as \<^verbatim>\<open>not x\<close> and \<^verbatim>\<open>if x\<close> test it.\<close>

fun truthy :: "yaml \<Rightarrow> bool" where
  "truthy YNull = False"
| "truthy (YBool b) = b"
| "truthy (YInt i) = (i \<noteq> 0)"
| "truthy (YStr s) = (s \<noteq> [])"
| "truthy (YList xs) = (xs \<noteq> [])"
| "truthy (YMap m) = (m \<noteq> [])"

text \<open>\<^verbatim>\<open>key in x\<close> for a string key: a key of a dict, an element of a list, a substring of a
  string; any other truthy value is not a container.\<close>

fun py_contains :: "string \<Rightarrow> yaml \<Rightarrow> py_error + bool" where
  "py_contains k (YMap m) = Inr (map_of m (YStr k) \<noteq> None)"
| "py_contains k (YList xs) = Inr (YStr k \<in> set xs)"
| "py_contains k (YStr s) = Inr (sublist k s)"
| "py_contains k v = Inl TypeError"

text \<open>\<^verbatim>\<open>x[key]\<close> for a string key.\<close>

fun py_getitem :: "yaml \<Rightarrow> string \<Rightarrow> py_error + yaml" where
  "py_getitem (YMap m) k = (case map_of m (YStr k) of None \<Rightarrow> Inl KeyError | Some v \<Rightarrow> Inr v)"
| "py_getitem v k = Inl TypeError"

text \<open>The items that \<^verbatim>\<open>for item in x\<close> runs over: the elements of a list, the keys of a dict,
  the characters of a string.\<close>

fun py_iter :: "yaml \<Rightarrow> py_error + yaml list" where
  "py_iter (YList xs) = Inr xs"
| "py_iter (YMap m) = Inr (map fst m)"
| "py_iter (YStr s) = Inr (map (\<lambda>c. YStr [c]) s)"
| "py_iter v = Inl TypeError"

text \<open>\<^verbatim>\<open>x.get(key, default)\<close>: only a dict has the method.\<close>

fun py_get :: "yaml \<Rightarrow> string \<Rightarrow> yaml \<Rightarrow> py_error + yaml" where
  "py_get (YMap m) k dflt = Inr (case map_of m (YStr k) of None \<Rightarrow> dflt | Some v \<Rightarrow> v)"
| "py_get v k dflt = Inl AttributeError"

text \<open>\<^verbatim>\<open>rules[file].append(rule)\<close> on the \<^verbatim>\<open>defaultdict(list)\<close>: a new key goes last.\<close>

fun dict_append :: "string \<Rightarrow> 'a \<Rightarrow> (string \<times> 'a list) list \<Rightarrow> (string \<times> 'a list) list" where
  "dict_append k v [] = [(k, [v])]"
| "dict_append k v ((k', vs) # m) =
     (if k = k' then (k', vs @ [v]) # m else (k', vs) # dict_append k v m)"

section \<open>File discovery\<close>

text \<open>\<^verbatim>\<open>fnmatch\<close> on a pattern of literal characters, \<^verbatim>\<open>*\<close> and \<^verbatim>\<open>?\<close> (the pattern of the
  program has no bracket expression).\<close>

fun fnmatch :: "string \<Rightarrow> string \<Rightarrow> bool" where
  "fnmatch [] [] = True"
| "fnmatch [] (c # cs) = False"
| "fnmatch (p # ps) [] = (p = CHR ''*'' \<and> fnmatch ps [])"
| "fnmatch (p # ps) (c # cs) =
     (if p = CHR ''*'' then fnmatch ps (c # cs) \<or> fnmatch (p # ps) cs
      else if p = CHR ''?'' then fnmatch ps cs
      else p = c \<and> fnmatch ps cs)"

text \<open>\<^verbatim>\<open>glob\<close> leaves out the names that start with a dot when the pattern does not.\<close>

fun ishidden :: "string \<Rightarrow> bool" where
  "ishidden [] = False"
| "ishidden (c # cs) = (c = CHR ''.'')"

text \<open>The path \<^verbatim>\<open>glob\<close> returns for a name found in the rules directory:
  \<^verbatim>\<open>os.path.join(rules_dir, "*.y*ml")\<close> is split again at its last slash, the directory part
  loses its trailing slashes unless it consists of slashes only, and the name is joined to it.\<close>

definition glob_path :: "string \<Rightarrow> string \<Rightarrow> string" where
  "glob_path rules_dir name =
     (if rules_dir = [] then name
      else if list_all (\<lambda>c. c = CHR ''/'') rules_dir then rules_dir @ name
      else rev (dropWhile (\<lambda>c. c = CHR ''/'') (rev rules_dir)) @ ''/'' @ name)"

text \<open>\<^verbatim>\<open>glob.has_magic\<close>: the characters that \<^verbatim>\<open>glob\<close> takes for a pattern, also in the
  directory part of the path it is given.\<close>

definition has_magic :: "string \<Rightarrow> bool" where
  "has_magic s = list_ex (\<lambda>c. c \<in> set ''*?['') s"

text \<open>Lines 45 and 46: the files that \<^verbatim>\<open>glob.glob\<close> returns for \<^verbatim>\<open>*.y*ml\<close> in the directory
  \<open>rules_dir\<close>, from the entries of that directory. This is \<^verbatim>\<open>glob\<close> on a path with
  \<open>\<not> has_magic rules_dir\<close> only: on a path with such a character \<^verbatim>\<open>glob\<close> reads the directories
  that the path matches as a pattern, which the model does not follow.\<close>

definition glob_yaml :: "string \<Rightarrow> (string \<times> 'a) list \<Rightarrow> (string \<times> 'a) list" where
  "glob_yaml rules_dir entries =
     map (\<lambda>(name, content). (glob_path rules_dir name, content))
       (filter (\<lambda>(name, content). \<not> ishidden name \<and> fnmatch ''*.y*ml'' name) entries)"

text \<open>\<^verbatim>\<open>os.path.basename\<close>: what follows the last slash.\<close>

definition basename :: "string \<Rightarrow> string" where
  "basename p = rev (takeWhile (\<lambda>c. c \<noteq> CHR ''/'') (rev p))"

section \<open>Rule loader\<close>

text \<open>Lines 64 to 76, the body of the loop over the entries of \<^verbatim>\<open>patterns\<close>: the rule that the
  entry gives, \<open>None\<close> when the entry is passed over, or the exception that escapes.
  \<^verbatim>\<open>re.compile\<close> raises \<^verbatim>\<open>TypeError\<close> on a value that is not a string; of the exceptions it
  raises on a string only \<^verbatim>\<open>re.error\<close> is caught, any other one escapes.\<close>

definition load_item :: "(string \<Rightarrow> 'r compile_result) \<Rightarrow> yaml \<Rightarrow> py_error + 'r rule option" where
  "load_item re_compile item =
     (case py_get item ''pattern'' (YMap []) of
        Inl e \<Rightarrow> Inl e
      | Inr pattern_obj \<Rightarrow>
          (case py_get pattern_obj ''name'' (YStr ''unknown'') of
             Inl e \<Rightarrow> Inl e
           | Inr name \<Rightarrow>
               (case py_get pattern_obj ''regex'' YNull of
                  Inl e \<Rightarrow> Inl e
                | Inr regex \<Rightarrow>
                    if \<not> truthy regex then Inr None
                    else (case regex of
                            YStr s \<Rightarrow>
                              (case re_compile s of
                                 Compiled compiled \<Rightarrow> Inr (Some (name, compiled))
                               | ReError \<Rightarrow> Inr None
                               | Raises e \<Rightarrow> Inl e)
                          | _ \<Rightarrow> Inl TypeError))))"

text \<open>Lines 63 to 76: the loop over the entries of one file.\<close>

fun load_items ::
  "(string \<Rightarrow> 'r compile_result) \<Rightarrow> string \<Rightarrow> yaml list \<Rightarrow> 'r ruleset \<times> nat \<Rightarrow> py_error + 'r ruleset \<times> nat"
where
  "load_items re_compile file [] (rules, total_rules) = Inr (rules, total_rules)"
| "load_items re_compile file (item # items) (rules, total_rules) =
     (case load_item re_compile item of
        Inl e \<Rightarrow> Inl e
      | Inr None \<Rightarrow> load_items re_compile file items (rules, total_rules)
      | Inr (Some rule) \<Rightarrow>
          load_items re_compile file items (dict_append file rule rules, total_rules + 1))"

text \<open>Lines 53 to 76: the body of the loop over the files.\<close>

fun load_file ::
  "(string \<Rightarrow> 'r compile_result) \<Rightarrow> string \<times> load_result \<Rightarrow> 'r ruleset \<times> nat \<times> out list
     \<Rightarrow> py_error + 'r ruleset \<times> nat \<times> out list"
where
  "load_file re_compile (file, Failed msg) (rules, total_rules, out) =
     Inr (rules, total_rules, out @ [LoadFailed file msg])"
| "load_file re_compile (file, Parsed data) (rules, total_rules, out) =
     (if \<not> truthy data then Inr (rules, total_rules, out)
      else (case py_contains ''patterns'' data of
              Inl e \<Rightarrow> Inl e
            | Inr False \<Rightarrow> Inr (rules, total_rules, out)
            | Inr True \<Rightarrow>
                (case py_getitem data ''patterns'' of
                   Inl e \<Rightarrow> Inl e
                 | Inr patterns \<Rightarrow>
                     (case py_iter patterns of
                        Inl e \<Rightarrow> Inl e
                      | Inr items \<Rightarrow>
                          (case load_items re_compile file items (rules, total_rules) of
                             Inl e \<Rightarrow> Inl e
                           | Inr (rules', total_rules') \<Rightarrow> Inr (rules', total_rules', out))))))"

fun load_files ::
  "(string \<Rightarrow> 'r compile_result) \<Rightarrow> (string \<times> load_result) list \<Rightarrow> 'r ruleset \<times> nat \<times> out list
     \<Rightarrow> py_error + 'r ruleset \<times> nat \<times> out list"
where
  "load_files re_compile [] st = Inr st"
| "load_files re_compile (f # files) st =
     (case load_file re_compile f st of
        Inl e \<Rightarrow> Inl e
      | Inr st' \<Rightarrow> load_files re_compile files st')"

text \<open>Lines 41 to 78. \<open>entries\<close> is the content of the directory \<open>rules_dir\<close>.\<close>

definition load_rules ::
  "(string \<Rightarrow> 'r compile_result) \<Rightarrow> string \<Rightarrow> (string \<times> load_result) list
     \<Rightarrow> py_error + 'r ruleset \<times> nat \<times> out list"
where
  "load_rules re_compile rules_dir entries =
     (let files = glob_yaml rules_dir entries in
      if files = [] then Inr ([], 0, [NoYamlFiles rules_dir])
      else load_files re_compile files ([], 0, []))"

section \<open>Scanner\<close>

text \<open>Lines 91 to 94: the loop over the rules of one file, with the list \<^verbatim>\<open>matches\<close> and the
  counter \<^verbatim>\<open>total_matches\<close>.\<close>

fun scan_rules ::
  "('r \<Rightarrow> string \<Rightarrow> bool) \<Rightarrow> string \<Rightarrow> 'r rule list \<Rightarrow> yaml list \<times> nat \<Rightarrow> yaml list \<times> nat"
where
  "scan_rules re_search token [] (matches, total_matches) = (matches, total_matches)"
| "scan_rules re_search token ((name, regex) # file_rules) (matches, total_matches) =
     (if re_search regex token
      then scan_rules re_search token file_rules (matches @ [name], total_matches + 1)
      else scan_rules re_search token file_rules (matches, total_matches))"

text \<open>Lines 88 to 100: the loop over the files of the rule set, with the flag \<^verbatim>\<open>found\<close>.\<close>

fun scan_files ::
  "('r \<Rightarrow> string \<Rightarrow> bool) \<Rightarrow> string \<Rightarrow> 'r ruleset \<Rightarrow> bool \<times> nat \<times> out list \<Rightarrow> bool \<times> nat \<times> out list"
where
  "scan_files re_search token [] st = st"
| "scan_files re_search token ((file, file_rules) # rules) (found, total_matches, out) =
     (case scan_rules re_search token file_rules ([], total_matches) of
        (matches, total_matches') \<Rightarrow>
          if matches \<noteq> []
          then scan_files re_search token rules
                 (True, total_matches', out @ MatchIn (basename file) # map MatchName matches)
          else scan_files re_search token rules (found, total_matches', out))"

text \<open>Lines 84 to 105: the match count returned, and what was printed.\<close>

definition scan_token :: "('r \<Rightarrow> string \<Rightarrow> bool) \<Rightarrow> string \<Rightarrow> 'r ruleset \<Rightarrow> nat \<times> out list" where
  "scan_token re_search token rules =
     (case scan_files re_search token rules (False, 0, []) of
        (found, total_matches, out) \<Rightarrow>
          (total_matches, if found then out else out @ [NoMatches]))"

text \<open>Lines 135 to 139.\<close>

definition print_summary :: "nat \<Rightarrow> nat \<Rightarrow> out list" where
  "print_summary tokens matches =
     [Separator, ScanComplete, TokensScanned tokens, TotalMatches matches]"

text \<open>\<^verbatim>\<open>str.strip()\<close>: the white space of Python among the characters below 256.\<close>

definition isspace :: "char \<Rightarrow> bool" where
  "isspace c = ((of_char c :: nat) \<in> set [9, 10, 11, 12, 13, 28, 29, 30, 31, 32, 133, 160])"

definition strip :: "string \<Rightarrow> string" where
  "strip s = rev (dropWhile isspace (rev (dropWhile isspace s)))"

text \<open>Lines 117 to 127: the loop over the lines of the token file.\<close>

fun scan_lines ::
  "('r \<Rightarrow> string \<Rightarrow> bool) \<Rightarrow> 'r ruleset \<Rightarrow> string list \<Rightarrow> nat \<times> nat \<times> out list \<Rightarrow> nat \<times> nat \<times> out list"
where
  "scan_lines re_search rules [] st = st"
| "scan_lines re_search rules (line # rest) (tokens_scanned, total_matches, out) =
     (let token = strip line in
      if token = [] then scan_lines re_search rules rest (tokens_scanned, total_matches, out)
      else (case scan_token re_search token rules of
              (matches, printed) \<Rightarrow>
                scan_lines re_search rules rest
                  (tokens_scanned + 1, total_matches + matches,
                   out @ [Separator, TokenLine token] @ printed)))"

text \<open>Lines 108 to 129: what \<^verbatim>\<open>scan_file\<close> prints, or the exception of reading the file.\<close>

definition scan_file ::
  "('r \<Rightarrow> string \<Rightarrow> bool) \<Rightarrow> filesystem \<Rightarrow> string \<Rightarrow> 'r ruleset \<Rightarrow> py_error + out list"
where
  "scan_file re_search fs path rules =
     (case token_files fs path of
        Missing \<Rightarrow> Inr [InputFileNotFound]
      | Unreadable e \<Rightarrow> Inl e
      | Lines ls \<Rightarrow>
          (case scan_lines re_search rules ls (0, 0, []) of
             (tokens_scanned, total_matches, out) \<Rightarrow>
               Inr (out @ print_summary tokens_scanned total_matches)))"

section \<open>Command line driver\<close>

text \<open>The value of an option that \<^verbatim>\<open>if args.token\<close> takes for true: given and not empty.\<close>

fun given :: "string option \<Rightarrow> string option" where
  "given None = None"
| "given (Some []) = None"
| "given (Some (c # cs)) = Some (c # cs)"

text \<open>Lines 176 to 197, from the parsed arguments on. A return from \<open>main\<close> is exit status 0.\<close>

definition main ::
  "(string \<Rightarrow> 'r compile_result) \<Rightarrow> ('r \<Rightarrow> string \<Rightarrow> bool) \<Rightarrow> filesystem \<Rightarrow> args \<Rightarrow> result"
where
  "main re_compile re_search fs a =
     (if given (arg_token a) = None \<and> given (arg_file a) = None then Finished 1 [Help]
      else (case load_rules re_compile (arg_directory a) (rule_dirs fs (arg_directory a)) of
              Inl e \<Rightarrow> Crashed e
            | Inr (rules, total_rules, loaded) \<Rightarrow>
                if total_rules = 0 then Finished 1 (LoadingRules # loaded @ [NoValidRules])
                else (case given (arg_token a) of
                        Some token \<Rightarrow>
                          (case scan_token re_search token rules of
                             (matches, printed) \<Rightarrow>
                               Finished 0
                                 (LoadingRules # loaded @ [LoadedPatterns total_rules, TokenLine token]
                                    @ printed @ print_summary 1 matches))
                      | None \<Rightarrow>
                          (case given (arg_file a) of
                             Some path \<Rightarrow>
                               (case scan_file re_search fs path rules of
                                  Inl e \<Rightarrow> Crashed e
                                | Inr printed \<Rightarrow>
                                    Finished 0
                                      (LoadingRules # loaded @ [LoadedPatterns total_rules] @ printed))
                           | None \<Rightarrow>
                               Finished 0 (LoadingRules # loaded @ [LoadedPatterns total_rules])))))"

section \<open>An engine for literal patterns\<close>

text \<open>The regex engine on the patterns that the runs below use. A pattern without special
  characters compiles (to itself) and is found in a token exactly when it is a substring of
  it. Of the patterns with a special character two are used, and \<open>literal_compile\<close> gives
  what \<^verbatim>\<open>re.compile\<close> gives on them: \<^verbatim>\<open>OverflowError\<close> on the repetition count
  \<^verbatim>\<open>a{4294967296}\<close>, and \<^verbatim>\<open>re.error\<close> on the unbalanced parenthesis. Every other pattern with
  a special character is outside the fragment (it is given as \<^verbatim>\<open>re.error\<close>, and no run uses
  one).\<close>

definition literal_compile :: "string \<Rightarrow> string compile_result" where
  "literal_compile s =
     (if s = ''a{4294967296}'' then Raises OverflowError
      else if list_ex (\<lambda>c. c \<in> set (CHR 0x5C # ''.^$*+?{}[]|()'')) s then ReError
      else Compiled s)"

definition literal_search :: "string \<Rightarrow> string \<Rightarrow> bool" where
  "literal_search p token = sublist p token"

text \<open>The rule file format: a document with the entries of \<^verbatim>\<open>patterns\<close>, and an entry with a
  \<^verbatim>\<open>pattern\<close> mapping of a name and a regex value.\<close>

definition rule_doc :: "yaml list \<Rightarrow> yaml" where
  "rule_doc entries = YMap [(YStr ''patterns'', YList entries)]"

definition rule_entry :: "string \<Rightarrow> yaml \<Rightarrow> yaml" where
  "rule_entry name regex =
     YMap [(YStr ''pattern'', YMap [(YStr ''name'', YStr name), (YStr ''regex'', regex)])]"

text \<open>The lines that the scanner prints, and among them the lines of the run summary that no
  other part of the program prints.\<close>

fun is_scan_event :: "out \<Rightarrow> bool" where
  "is_scan_event (MatchIn f) = True"
| "is_scan_event (MatchName n) = True"
| "is_scan_event NoMatches = True"
| "is_scan_event Separator = True"
| "is_scan_event (TokenLine t) = True"
| "is_scan_event ScanComplete = True"
| "is_scan_event (TokensScanned n) = True"
| "is_scan_event (TotalMatches n) = True"
| "is_scan_event e = False"

fun is_summary :: "out \<Rightarrow> bool" where
  "is_summary ScanComplete = True"
| "is_summary (TokensScanned n) = True"
| "is_summary (TotalMatches n) = True"
| "is_summary e = False"

text \<open>A small file system for running the program: the rules directory \<^verbatim>\<open>/r\<close> holds one file
  with one rule, every other directory is empty, and \<^verbatim>\<open>tokens.txt\<close> is the only token file,
  with two tokens and a blank line.\<close>

definition example_rules :: "(string \<times> load_result) list" where
  "example_rules = [(''a.yml'', Parsed (rule_doc [rule_entry ''n'' (YStr ''abc'')]))]"

definition example_fs :: filesystem where
  "example_fs =
     \<lparr>rule_dirs = (\<lambda>d. if d = ''/r'' then example_rules else []),
      token_files = (\<lambda>p. if p = ''tokens.txt''
                          then Lines [''xabcx'' @ [CHR 0x0A], [CHR 0x0A], ''zzz'' @ [CHR 0x0A]]
                          else Missing)\<rparr>"

text \<open>The invariant of the loader's loops: the counter is the number of rules in the rule set,
  and each of them holds the result of a successful compilation.\<close>

definition loaded_ok :: "(string \<Rightarrow> 'r compile_result) \<Rightarrow> 'r ruleset \<Rightarrow> nat \<Rightarrow> bool" where
  "loaded_ok re_compile rules total_rules \<longleftrightarrow>
     total_rules = sum_list (map (\<lambda>(f, rs). length rs) rules)
     \<and> list_all (\<lambda>(f, rs). list_all (\<lambda>(name, compiled). \<exists>s. re_compile s = Compiled compiled) rs) rules"

section \<open>The matcher counts the matching rules\<close>

text \<open>The pairs of a file and one of its rules, in the order the scan visits them.\<close>

definition rule_pairs :: "'r ruleset \<Rightarrow> (string \<times> 'r rule) list" where
  "rule_pairs rules = concat (map (\<lambda>(file, file_rules). map (Pair file) file_rules) rules)"

lemma scan_rules_count:
  "snd (scan_rules re_search token rs (ms, n)) =
     n + length (filter (\<lambda>(name, regex). re_search regex token) rs)"
  by (induction rs arbitrary: ms n) auto

lemma scan_files_count:
  "fst (snd (scan_files re_search token rules (found, n, out))) =
     n + length (filter (\<lambda>(file, name, regex). re_search regex token) (rule_pairs rules))"
proof (induction rules arbitrary: found n out)
  case Nil
  show ?case by (simp add: rule_pairs_def)
next
  case (Cons fr rules)
  obtain path file_rules where fr: "fr = (path, file_rules)" by (cases fr)
  obtain ms n' where sr: "scan_rules re_search token file_rules ([], n) = (ms, n')"
    by (cases "scan_rules re_search token file_rules ([], n)")
  have n': "n' = n + length (filter (\<lambda>(name, regex). re_search regex token) file_rules)"
    using scan_rules_count [of re_search token file_rules "[]" n] sr by simp
  have pairs: "length (filter (\<lambda>(file, name, regex). re_search regex token) (map (Pair path) file_rules))
      = length (filter (\<lambda>(name, regex). re_search regex token) file_rules)"
    by (induction file_rules) auto
  show ?case
    using Cons.IH [of True n' "out @ MatchIn (basename path) # map MatchName ms"]
      Cons.IH [of found n' out] pairs
    by (simp add: fr sr n' rule_pairs_def)
qed

text \<open>
  C1. For every token and every rule set, \<open>scan_token\<close> calls the engine's unanchored search
  (\<open>re_search\<close>, the \<^verbatim>\<open>search\<close> method of the compiled pattern) on every rule of every file, and
  the count it returns is the number of pairs of a file and a rule of it whose pattern is found
  in the token.
\<close>

theorem scan_token_count:
  "fst (scan_token re_search token rules) =
     length (filter (\<lambda>(file, name, regex). re_search regex token) (rule_pairs rules))"
proof -
  obtain found n out where sf: "scan_files re_search token rules (False, 0, []) = (found, n, out)"
    by (cases "scan_files re_search token rules (False, 0, [])")
  have "n = length (filter (\<lambda>(file, name, regex). re_search regex token) (rule_pairs rules))"
    using scan_files_count [of re_search token rules False 0 "[]"] sf by simp
  then show ?thesis by (simp add: scan_token_def sf)
qed


theorem scan_token_count_witness:
  "fst (scan_token literal_search ''xxabcxx''
          [(''/r/a.yml'', [(YStr ''mid'', ''abc''), (YStr ''other'', ''zz'')]),
           (''/r/b.yml'', [(YStr ''head'', ''xx'')])]) = 2"
  using scan_token_count [of literal_search "''xxabcxx''"
      "[(''/r/a.yml'', [(YStr ''mid'', ''abc''), (YStr ''other'', ''zz'')]),
        (''/r/b.yml'', [(YStr ''head'', ''xx'')])]"]
  by (simp add: rule_pairs_def literal_search_def sublist_Cons_right)

section \<open>Which files the loader reads\<close>

lemma fnmatch_nil: "fnmatch [] n \<longleftrightarrow> n = []"
  by (cases n) auto

lemma fnmatch_star: "fnmatch (CHR ''*'' # ps) n \<longleftrightarrow> (\<exists>a b. n = a @ b \<and> fnmatch ps b)"
proof (induction n)
  case Nil
  show ?case by simp
next
  case (Cons c cs)
  have "(\<exists>a b. c # cs = a @ b \<and> fnmatch ps b) \<longleftrightarrow>
        fnmatch ps (c # cs) \<or> (\<exists>a b. cs = a @ b \<and> fnmatch ps b)"
    by (auto simp: Cons_eq_append_conv)
  with Cons show ?case by simp
qed

lemma fnmatch_lit:
  "p \<noteq> CHR ''*'' \<Longrightarrow> p \<noteq> CHR ''?'' \<Longrightarrow> fnmatch (p # ps) n \<longleftrightarrow> (\<exists>cs. n = p # cs \<and> fnmatch ps cs)"
  by (cases n) auto

lemma fnmatch_tail: "fnmatch ''.y*ml'' n \<longleftrightarrow> (\<exists>b. n = ''.y'' @ b @ ''ml'')"
  by (simp add: fnmatch_star fnmatch_lit fnmatch_nil) blast

lemma fnmatch_yaml: "fnmatch ''*.y*ml'' n \<longleftrightarrow> (\<exists>a b. n = a @ ''.y'' @ b @ ''ml'')"
proof -
  have "fnmatch ''*.y*ml'' n \<longleftrightarrow> (\<exists>a t. n = a @ t \<and> fnmatch ''.y*ml'' t)"
    by (rule fnmatch_star)
  also have "\<dots> \<longleftrightarrow> (\<exists>a b. n = a @ ''.y'' @ b @ ''ml'')"
    unfolding fnmatch_tail by blast
  finally show ?thesis .
qed

lemma fnmatch_yml: "suffix ''.yml'' n \<or> suffix ''.yaml'' n \<Longrightarrow> fnmatch ''*.y*ml'' n"
  unfolding fnmatch_yaml suffix_def
proof (erule disjE)
  assume "\<exists>zs. n = zs @ ''.yml''"
  then obtain zs where "n = zs @ ''.y'' @ [] @ ''ml''" by auto
  then show "\<exists>a b. n = a @ ''.y'' @ b @ ''ml''" by blast
next
  assume "\<exists>zs. n = zs @ ''.yaml''"
  then obtain zs where "n = zs @ ''.y'' @ ''a'' @ ''ml''" by auto
  then show "\<exists>a b. n = a @ ''.y'' @ b @ ''ml''" by blast
qed

lemma glob_yaml_filter:
  "glob_yaml d (filter (\<lambda>(name, content). \<not> ishidden name \<and> fnmatch ''*.y*ml'' name) entries)
     = glob_yaml d entries"
  by (simp add: glob_yaml_def case_prod_unfold)

lemma glob_yaml_append:
  "glob_yaml d (xs @ ys) = glob_yaml d xs @ glob_yaml d ys"
  by (simp add: glob_yaml_def)

lemma load_files_append:
  "load_files re_compile (xs @ ys) st =
     (case load_files re_compile xs st of
        Inl e \<Rightarrow> Inl e
      | Inr st' \<Rightarrow> load_files re_compile ys st')"
  by (induction xs arbitrary: st) (auto split: sum.splits)

text \<open>A load that returns has passed every file that \<^verbatim>\<open>glob\<close> found to the body of the loop, in
  order: the run through the files splits at each of them.\<close>

lemma load_files_passes:
  assumes "load_files re_compile (xs @ f # ys) st = Inr st'"
  shows "\<exists>s1 s2. load_files re_compile xs st = Inr s1
    \<and> load_file re_compile f s1 = Inr s2
    \<and> load_files re_compile ys s2 = Inr st'"
proof (cases "load_files re_compile xs st")
  case (Inl e)
  with assms show ?thesis by (simp add: load_files_append)
next
  case (Inr s1)
  with assms have rest: "load_files re_compile (f # ys) s1 = Inr st'"
    by (simp add: load_files_append)
  show ?thesis
  proof (cases "load_file re_compile f s1")
    case (Inl e)
    with rest show ?thesis by simp
  next
    case inr: (Inr s2)
    with rest have "load_files re_compile ys s2 = Inr st'" by simp
    with Inr inr show ?thesis by blast
  qed
qed

text \<open>
  C5, as the program has it. For a rules directory whose path has none of the characters that
  \<^verbatim>\<open>glob\<close> takes for a pattern, the loader reads exactly the entries of that directory whose
  name does not start with a dot and has the form \<open>a.y b ml\<close> (the pattern \<^verbatim>\<open>*.y*ml\<close>), in the
  directory itself: the files of the loop are these entries, and an entry with any other name
  contributes nothing (the result is the same without it). Every file named \<^verbatim>\<open>.yml\<close> or
  \<^verbatim>\<open>.yaml\<close> whose name does not start with a dot is among the files of the loop, and a load
  that returns has run the body of the loop on it, between the files before it and the files
  after it.
\<close>

theorem glob_yaml_files:
  assumes "\<not> has_magic rules_dir"
  shows "map fst (glob_yaml rules_dir entries) =
     map (glob_path rules_dir)
       (filter (\<lambda>name. \<not> ishidden name \<and> (\<exists>a b. name = a @ ''.y'' @ b @ ''ml'')) (map fst entries))
   \<and> load_rules re_compile rules_dir entries =
     load_rules re_compile rules_dir
       (filter (\<lambda>(name, content). \<not> ishidden name \<and> (\<exists>a b. name = a @ ''.y'' @ b @ ''ml'')) entries)
   \<and> (\<forall>name content. (name, content) \<in> set entries \<and> \<not> ishidden name
          \<and> (suffix ''.yml'' name \<or> suffix ''.yaml'' name)
        \<longrightarrow> (glob_path rules_dir name, content) \<in> set (glob_yaml rules_dir entries))
   \<and> (\<forall>name content before after st.
          entries = before @ (name, content) # after \<and> \<not> ishidden name
          \<and> (suffix ''.yml'' name \<or> suffix ''.yaml'' name)
          \<and> load_rules re_compile rules_dir entries = Inr st
        \<longrightarrow> (\<exists>s1 s2. load_files re_compile (glob_yaml rules_dir before) ([], 0, []) = Inr s1
               \<and> load_file re_compile (glob_path rules_dir name, content) s1 = Inr s2
               \<and> load_files re_compile (glob_yaml rules_dir after) s2 = Inr st))"
proof (intro conjI allI impI)
  show "map fst (glob_yaml rules_dir entries) =
     map (glob_path rules_dir)
       (filter (\<lambda>name. \<not> ishidden name \<and> (\<exists>a b. name = a @ ''.y'' @ b @ ''ml'')) (map fst entries))"
    unfolding fnmatch_yaml [symmetric]
    by (induction entries) (auto simp: glob_yaml_def)
next
  show "load_rules re_compile rules_dir entries =
     load_rules re_compile rules_dir
       (filter (\<lambda>(name, content). \<not> ishidden name \<and> (\<exists>a b. name = a @ ''.y'' @ b @ ''ml'')) entries)"
    unfolding fnmatch_yaml [symmetric] load_rules_def glob_yaml_filter ..
next
  fix name content
  assume "(name, content) \<in> set entries \<and> \<not> ishidden name
          \<and> (suffix ''.yml'' name \<or> suffix ''.yaml'' name)"
  then show "(glob_path rules_dir name, content) \<in> set (glob_yaml rules_dir entries)"
    using fnmatch_yml [of name] by (force simp: glob_yaml_def)
next
  fix name content before after st
  assume a: "entries = before @ (name, content) # after \<and> \<not> ishidden name
          \<and> (suffix ''.yml'' name \<or> suffix ''.yaml'' name)
          \<and> load_rules re_compile rules_dir entries = Inr st"
  then have m: "fnmatch ''*.y*ml'' name"
    using fnmatch_yml [of name] by simp
  have one: "glob_yaml rules_dir [(name, content)] = [(glob_path rules_dir name, content)]"
    using a m by (simp add: glob_yaml_def)
  have split: "glob_yaml rules_dir entries =
      glob_yaml rules_dir before @ (glob_path rules_dir name, content) # glob_yaml rules_dir after"
    using a glob_yaml_append [of rules_dir before "(name, content) # after"]
      glob_yaml_append [of rules_dir "[(name, content)]" after] one
    by simp
  have "load_files re_compile
      (glob_yaml rules_dir before @ (glob_path rules_dir name, content) # glob_yaml rules_dir after)
      ([], 0, []) = Inr st"
    using a split by (simp add: load_rules_def)
  then show "\<exists>s1 s2. load_files re_compile (glob_yaml rules_dir before) ([], 0, []) = Inr s1
               \<and> load_file re_compile (glob_path rules_dir name, content) s1 = Inr s2
               \<and> load_files re_compile (glob_yaml rules_dir after) s2 = Inr st"
    by (rule load_files_passes)
qed

theorem glob_yaml_files_witness:
  "\<not> has_magic ''/r''
   \<and> (''aws.yaml'', Parsed (rule_doc [])) \<in> set [(''aws.yaml'', Parsed (rule_doc [])), (''notes.txt'', Failed ''binary'')]
   \<and> \<not> ishidden ''aws.yaml'' \<and> suffix ''.yaml'' ''aws.yaml''
   \<and> (''/r/aws.yaml'', Parsed (rule_doc []))
        \<in> set (glob_yaml ''/r'' [(''aws.yaml'', Parsed (rule_doc [])), (''notes.txt'', Failed ''binary'')])
   \<and> map fst (glob_yaml ''/r'' [(''aws.yaml'', Parsed (rule_doc [])), (''notes.txt'', Failed ''binary'')])
        = [''/r/aws.yaml'']
   \<and> load_rules literal_compile ''/r''
        [(''aws.yaml'', Parsed (rule_doc [])), (''notes.txt'', Failed ''binary'')] = Inr ([], 0, [])
   \<and> (\<exists>s1 s2. load_files literal_compile (glob_yaml ''/r'' []) ([], 0, []) = Inr s1
         \<and> load_file literal_compile (glob_path ''/r'' ''aws.yaml'', Parsed (rule_doc [])) s1 = Inr s2
         \<and> load_files literal_compile (glob_yaml ''/r'' [(''notes.txt'', Failed ''binary'')]) s2
             = Inr ([], 0, []))"
proof -
  have plain: "\<not> has_magic ''/r''"
    by (simp add: has_magic_def)
  note files = glob_yaml_files [OF plain, where re_compile = literal_compile
      and entries = "[(''aws.yaml'', Parsed (rule_doc [])), (''notes.txt'', Failed ''binary'')]"]
  have run: "load_rules literal_compile ''/r''
      [(''aws.yaml'', Parsed (rule_doc [])), (''notes.txt'', Failed ''binary'')] = Inr ([], 0, [])"
    by (simp add: load_rules_def glob_yaml_def glob_path_def rule_doc_def)
  have names: "map fst (glob_yaml ''/r'' [(''aws.yaml'', Parsed (rule_doc [])), (''notes.txt'', Failed ''binary'')])
      = [''/r/aws.yaml'']"
    by (simp add: glob_yaml_def glob_path_def)
  have yaml: "\<not> ishidden ''aws.yaml'' \<and> suffix ''.yaml'' ''aws.yaml''"
    by (simp add: suffix_to_prefix)
  have listed: "(glob_path ''/r'' ''aws.yaml'', Parsed (rule_doc []))
      \<in> set (glob_yaml ''/r'' [(''aws.yaml'', Parsed (rule_doc [])), (''notes.txt'', Failed ''binary'')])"
    by (rule files [THEN conjunct2, THEN conjunct2, THEN conjunct1, rule_format]) (simp add: yaml)
  have passed: "\<exists>s1 s2. load_files literal_compile (glob_yaml ''/r'' []) ([], 0, []) = Inr s1
         \<and> load_file literal_compile (glob_path ''/r'' ''aws.yaml'', Parsed (rule_doc [])) s1 = Inr s2
         \<and> load_files literal_compile (glob_yaml ''/r'' [(''notes.txt'', Failed ''binary'')]) s2
             = Inr ([], 0, [])"
    by (rule files [THEN conjunct2, THEN conjunct2, THEN conjunct2, rule_format])
       (simp add: yaml run)
  have path: "glob_path ''/r'' ''aws.yaml'' = ''/r/aws.yaml''"
    by (simp add: glob_path_def)
  show ?thesis
    using plain yaml listed names run passed by (simp add: path)
qed

text \<open>The claim as the specification words it (only, and all, the files named \<^verbatim>\<open>.yml\<close> or
  \<^verbatim>\<open>.yaml\<close>) fails both ways: a file named \<^verbatim>\<open>rules.yxml\<close> gives a rule, and the rules of
  \<^verbatim>\<open>.rules.yml\<close> are not read.\<close>

theorem glob_yaml_counterexample:
  "load_rules literal_compile ''/r''
     [(''rules.yxml'', Parsed (rule_doc [rule_entry ''n'' (YStr ''abc'')]))]
     = Inr ([(''/r/rules.yxml'', [(YStr ''n'', ''abc'')])], 1, [])
   \<and> load_rules literal_compile ''/r''
     [(''.rules.yml'', Parsed (rule_doc [rule_entry ''n'' (YStr ''abc'')]))]
     = Inr ([], 0, [NoYamlFiles ''/r''])"
  by (simp add: load_rules_def glob_yaml_def glob_path_def rule_doc_def rule_entry_def
      load_item_def literal_compile_def)

section \<open>The rule count and the compiled patterns\<close>

lemma dict_append_count:
  "sum_list (map (\<lambda>(f, rs). length rs) (dict_append k v m)) = Suc (sum_list (map (\<lambda>(f, rs). length rs) m))"
  by (induction m) auto

lemma dict_append_all:
  "P v \<Longrightarrow> list_all (\<lambda>(f, rs). list_all P rs) m \<Longrightarrow> list_all (\<lambda>(f, rs). list_all P rs) (dict_append k v m)"
  by (induction m) auto

lemma load_item_compiled:
  "load_item re_compile item = Inr (Some (name, compiled)) \<Longrightarrow> \<exists>s. re_compile s = Compiled compiled"
  by (auto simp: load_item_def split: sum.splits if_splits yaml.splits compile_result.splits)

lemma load_items_ok:
  "load_items re_compile f items (rules, n) = Inr (rules', n') \<Longrightarrow> loaded_ok re_compile rules n
     \<Longrightarrow> loaded_ok re_compile rules' n'"
proof (induction items arbitrary: rules n)
  case Nil
  then show ?case by simp
next
  case (Cons item items)
  show ?case
  proof (cases "load_item re_compile item")
    case (Inl e)
    with Cons.prems show ?thesis by simp
  next
    case (Inr r)
    show ?thesis
    proof (cases r)
      case None
      with Inr Cons show ?thesis by simp
    next
      case (Some rule)
      obtain name compiled where rule: "rule = (name, compiled)" by (cases rule)
      have "\<exists>s. re_compile s = Compiled compiled"
        using load_item_compiled Inr Some rule by fast
      then have "loaded_ok re_compile (dict_append f rule rules) (n + 1)"
        using Cons.prems(2) dict_append_all [of "\<lambda>(name, compiled). \<exists>s. re_compile s = Compiled compiled" rule rules f]
        by (simp add: loaded_ok_def dict_append_count rule)
      with Cons.IH [of "dict_append f rule rules" "n + 1"] Cons.prems(1) Inr Some
      show ?thesis by simp
    qed
  qed
qed

lemma load_file_ok:
  "load_file re_compile fc (rules, n, out) = Inr (rules', n', out') \<Longrightarrow> loaded_ok re_compile rules n
     \<Longrightarrow> loaded_ok re_compile rules' n'"
proof (cases fc)
  case (Pair f content)
  assume a: "load_file re_compile fc (rules, n, out) = Inr (rules', n', out')"
    and ok: "loaded_ok re_compile rules n"
  show ?thesis
  proof (cases content)
    case (Failed msg)
    with a ok Pair show ?thesis by simp
  next
    case (Parsed data)
    with a ok Pair show ?thesis
      by (auto split: if_splits sum.splits bool.splits dest: load_items_ok)
  qed
qed

lemma load_files_ok:
  "load_files re_compile files (rules, n, out) = Inr (rules', n', out') \<Longrightarrow> loaded_ok re_compile rules n
     \<Longrightarrow> loaded_ok re_compile rules' n'"
proof (induction files arbitrary: rules n out)
  case Nil
  then show ?case by simp
next
  case (Cons fc files)
  show ?case
  proof (cases "load_file re_compile fc (rules, n, out)")
    case (Inl e)
    with Cons.prems show ?thesis by simp
  next
    case (Inr st)
    obtain r1 n1 o1 where st: "st = (r1, n1, o1)" by (cases st)
    have "loaded_ok re_compile r1 n1"
      using load_file_ok Inr st Cons.prems(2) by fast
    with Cons.IH [of r1 n1 o1] Cons.prems(1) Inr st show ?thesis by simp
  qed
qed

text \<open>
  C6. When \<open>load_rules\<close> returns, the count it returns is the sum over the files of the rule
  set of the number of rules listed for the file, and every rule of the rule set holds a
  pattern that the engine compiled.
\<close>

theorem load_rules_total:
  assumes "load_rules re_compile rules_dir entries = Inr (rules, total_rules, out)"
  shows "total_rules = sum_list (map (\<lambda>(f, file_rules). length file_rules) rules)
    \<and> list_all (\<lambda>(f, file_rules).
          list_all (\<lambda>(name, compiled). \<exists>s. re_compile s = Compiled compiled) file_rules) rules"
proof -
  have empty: "loaded_ok re_compile [] 0" by (simp add: loaded_ok_def)
  have "loaded_ok re_compile rules total_rules"
  proof (cases "glob_yaml rules_dir entries = []")
    case True
    with assms empty show ?thesis by (simp add: load_rules_def)
  next
    case False
    with assms have "load_files re_compile (glob_yaml rules_dir entries) ([], 0, []) = Inr (rules, total_rules, out)"
      by (simp add: load_rules_def)
    then show ?thesis using load_files_ok empty by fast
  qed
  then show ?thesis by (simp add: loaded_ok_def)
qed

theorem load_rules_total_witness:
  "load_rules literal_compile ''/r''
     [(''a.yml'', Parsed (rule_doc [rule_entry ''n'' (YStr ''abc''), rule_entry ''bad'' (YStr ''(''),
         rule_entry ''m'' (YStr ''de'')]))]
     = Inr ([(''/r/a.yml'', [(YStr ''n'', ''abc''), (YStr ''m'', ''de'')])], 2, [])
   \<and> (2::nat) = sum_list (map (\<lambda>(f, file_rules). length file_rules)
         [(''/r/a.yml'', [(YStr ''n'', ''abc''), (YStr ''m'', ''de'')])])
   \<and> list_all (\<lambda>(f, file_rules).
          list_all (\<lambda>(name, compiled). \<exists>s. literal_compile s = Compiled compiled) file_rules)
        [(''/r/a.yml'', [(YStr ''n'', ''abc''), (YStr ''m'', ''de'')])]"
proof -
  have run: "load_rules literal_compile ''/r''
     [(''a.yml'', Parsed (rule_doc [rule_entry ''n'' (YStr ''abc''), rule_entry ''bad'' (YStr ''(''),
         rule_entry ''m'' (YStr ''de'')]))]
     = Inr ([(''/r/a.yml'', [(YStr ''n'', ''abc''), (YStr ''m'', ''de'')])], 2, [])"
    by (simp add: load_rules_def glob_yaml_def glob_path_def rule_doc_def rule_entry_def
        load_item_def literal_compile_def)
  show ?thesis using load_rules_total [OF run] run by simp
qed

section \<open>Which entries give a rule\<close>




section \<open>A regex that does not compile\<close>

lemma load_items_skip:
  "load_item re_compile item = Inr None \<Longrightarrow>
     load_items re_compile f (before @ item # after) st = load_items re_compile f (before @ after) st"
proof (induction before arbitrary: st)
  case Nil
  then show ?case by (cases st) simp
next
  case (Cons x before)
  obtain rules n where st: "st = (rules, n)" by (cases st)
  show ?case
    using Cons by (simp add: st split: sum.splits option.splits)
qed

text \<open>What line 75 recovers from. An entry whose regex is a string on which the engine raises
  \<^verbatim>\<open>re.error\<close> gives no rule and raises nothing; the loop over the entries of the file ends as
  it would without the entry, whatever stands before and after it. A file with this entry and
  one valid rule, in either order, gives exactly the valid rule and the count 1.\<close>

lemma re_error_skipped:
  assumes "py_get item ''pattern'' (YMap []) = Inr (YMap m)"
    and "map_of m (YStr ''regex'') = Some (YStr s)"
    and "re_compile s = ReError"
  shows "load_item re_compile item = Inr None
    \<and> load_items re_compile f (before @ item # after) st = load_items re_compile f (before @ after) st
    \<and> (\<forall>name good_name good compiled.
          \<not> ishidden name \<and> fnmatch ''*.y*ml'' name \<and> good \<noteq> [] \<and> re_compile good = Compiled compiled
          \<longrightarrow> load_rules re_compile rules_dir [(name, Parsed (rule_doc [item, rule_entry good_name (YStr good)]))]
                = Inr ([(glob_path rules_dir name, [(YStr good_name, compiled)])], 1, [])
            \<and> load_rules re_compile rules_dir [(name, Parsed (rule_doc [rule_entry good_name (YStr good), item]))]
                = Inr ([(glob_path rules_dir name, [(YStr good_name, compiled)])], 1, []))"
proof -
  have skip: "load_item re_compile item = Inr None"
    using assms by (auto simp: load_item_def split: option.splits yaml.splits)
  have good: "load_item re_compile (rule_entry good_name (YStr good)) = Inr (Some (YStr good_name, compiled))"
    if "good \<noteq> []" "re_compile good = Compiled compiled" for good_name good compiled
    using that by (simp add: load_item_def rule_entry_def)
  show ?thesis
    using skip load_items_skip [OF skip]
    by (simp add: load_rules_def glob_yaml_def rule_doc_def good)
qed

text \<open>The scenario of the specification: the regex \<^verbatim>\<open>(\<close> beside a valid rule.\<close>

lemma re_error_skipped_scenario:
  "load_rules literal_compile ''/r''
     [(''a.yml'', Parsed (rule_doc [rule_entry ''broken'' (YStr ''(''), rule_entry ''email'' (YStr ''@'')]))]
     = Inr ([(''/r/a.yml'', [(YStr ''email'', ''@'')])], 1, [])"
  by (simp add: load_rules_def glob_yaml_def glob_path_def rule_doc_def rule_entry_def
      load_item_def literal_compile_def)

text \<open>What line 75 lets through: any other exception of \<^verbatim>\<open>re.compile\<close> on the string ends the
  loop over the entries, whatever comes after the entry.\<close>

lemma compile_exception_escapes:
  assumes "py_get item ''pattern'' (YMap []) = Inr (YMap m)"
    and "map_of m (YStr ''regex'') = Some (YStr s)"
    and "s \<noteq> []"
    and "re_compile s = Raises e"
  shows "load_item re_compile item = Inl e"
    and "load_items re_compile f (item # after) (rules, total_rules) = Inl e"
proof -
  show item: "load_item re_compile item = Inl e"
    using assms by (auto simp: load_item_def split: option.splits yaml.splits)
  show "load_items re_compile f (item # after) (rules, total_rules) = Inl e"
    by (simp add: item)
qed

text \<open>
  C3 does not hold of the program. An entry whose regex fails to compile is passed over only
  when the failure is \<^verbatim>\<open>re.error\<close>. On the regex \<^verbatim>\<open>a{4294967296}\<close> the compilation fails with
  \<^verbatim>\<open>OverflowError\<close>, which line 75 does not catch: the entry is not passed over, the load ends
  with the exception, and the valid rule beside it is lost.
\<close>

theorem load_rules_overflow_error:
  "load_rules literal_compile ''/r''
     [(''a.yml'', Parsed (rule_doc [rule_entry ''big'' (YStr ''a{4294967296}''),
         rule_entry ''ok'' (YStr ''abc'')]))] = Inl OverflowError"
  by (simp add: load_rules_def glob_yaml_def glob_path_def rule_doc_def rule_entry_def
      load_item_def literal_compile_def)

section \<open>Values of an unexpected shape\<close>

text \<open>
  C4 does not hold of the program. The loader recovers from a file that cannot be opened or
  parsed (line 56) and from \<^verbatim>\<open>re.error\<close> (line 75), but a regex value that is not a string makes
  \<^verbatim>\<open>re.compile\<close> raise \<^verbatim>\<open>TypeError\<close>, which nothing catches: with \<^verbatim>\<open>regex: 123\<close> in the first
  file, the load ends with the exception and the valid rule of the second file is lost. Line 75
  catches \<^verbatim>\<open>re.error\<close> alone, as it does for a string whose compilation raises another
  exception.
\<close>

theorem load_rules_type_error:
  "load_rules literal_compile ''/r''
     [(''a.yml'', Parsed (rule_doc [rule_entry ''n'' (YInt 123)])),
      (''b.yml'', Parsed (rule_doc [rule_entry ''ok'' (YStr ''abc'')]))] = Inl TypeError"
  by (simp add: load_rules_def glob_yaml_def glob_path_def rule_doc_def rule_entry_def
      load_item_def literal_compile_def)

text \<open>Other shapes with the same end: a document that is a number, a \<^verbatim>\<open>pattern\<close> that is
  null, a \<^verbatim>\<open>patterns\<close> that is null. A document that is a plain string is passed over.\<close>

lemma load_rules_shapes:
  "load_rules literal_compile ''/r'' [(''a.yml'', Parsed (YInt 42))] = Inl TypeError"
  "load_rules literal_compile ''/r'' [(''a.yml'', Parsed (rule_doc [YMap [(YStr ''pattern'', YNull)]]))] = Inl AttributeError"
  "load_rules literal_compile ''/r'' [(''a.yml'', Parsed (YMap [(YStr ''patterns'', YNull)]))] = Inl TypeError"
  "load_rules literal_compile ''/r'' [(''a.yml'', Parsed (YStr ''hello''))] = Inr ([], 0, [])"
  by (simp_all add: load_rules_def glob_yaml_def glob_path_def rule_doc_def rule_entry_def
      load_item_def literal_compile_def sublist_Cons_right)

section \<open>What each part of a run prints\<close>

text \<open>The loader prints none of the scanner's lines, and the scanner none of the lines of the
  run summary.\<close>

lemma load_file_out:
  "load_file re_compile fc (rules, n, out) = Inr (rules', n', out') \<Longrightarrow>
     list_all (\<lambda>e. \<not> is_scan_event e) out \<Longrightarrow> list_all (\<lambda>e. \<not> is_scan_event e) out'"
proof (cases fc)
  case (Pair f content)
  assume a: "load_file re_compile fc (rules, n, out) = Inr (rules', n', out')"
    and ok: "list_all (\<lambda>e. \<not> is_scan_event e) out"
  show ?thesis
  proof (cases content)
    case (Failed msg)
    with a ok Pair show ?thesis by auto
  next
    case (Parsed data)
    with a ok Pair show ?thesis
      by (auto split: if_splits sum.splits bool.splits)
  qed
qed

lemma load_files_out:
  "load_files re_compile files (rules, n, out) = Inr (rules', n', out') \<Longrightarrow>
     list_all (\<lambda>e. \<not> is_scan_event e) out \<Longrightarrow> list_all (\<lambda>e. \<not> is_scan_event e) out'"
proof (induction files arbitrary: rules n out)
  case Nil
  then show ?case by simp
next
  case (Cons fc files)
  show ?case
  proof (cases "load_file re_compile fc (rules, n, out)")
    case (Inl e)
    with Cons.prems show ?thesis by simp
  next
    case (Inr st)
    obtain r1 n1 o1 where st: "st = (r1, n1, o1)" by (cases st)
    have "list_all (\<lambda>e. \<not> is_scan_event e) o1"
      using load_file_out Inr st Cons.prems(2) by fast
    with Cons.IH [of r1 n1 o1] Cons.prems(1) Inr st show ?thesis by simp
  qed
qed

lemma load_rules_out:
  assumes "load_rules re_compile rules_dir entries = Inr (rules, n, out)"
  shows "list_all (\<lambda>e. \<not> is_scan_event e) out"
proof (cases "glob_yaml rules_dir entries = []")
  case True
  with assms show ?thesis by (auto simp: load_rules_def)
next
  case False
  with assms have "load_files re_compile (glob_yaml rules_dir entries) ([], 0, []) = Inr (rules, n, out)"
    by (simp add: load_rules_def)
  then show ?thesis using load_files_out [of re_compile _ "[]" 0 "[]"] by simp
qed

lemma is_summary_scan: "is_summary e \<Longrightarrow> is_scan_event e"
  by (cases e) auto

lemma not_scan_not_summary:
  "list_all (\<lambda>e. \<not> is_scan_event e) out \<Longrightarrow> list_all (\<lambda>e. \<not> is_summary e) out"
  by (induction out) (auto dest: is_summary_scan)

lemma scan_files_out:
  "list_all (\<lambda>e. \<not> is_summary e) out \<Longrightarrow>
     list_all (\<lambda>e. \<not> is_summary e) (snd (snd (scan_files re_search token rules (found, n, out))))"
proof (induction rules arbitrary: found n out)
  case Nil
  then show ?case by simp
next
  case (Cons fr rules)
  obtain path file_rules where fr: "fr = (path, file_rules)" by (cases fr)
  obtain ms n' where sr: "scan_rules re_search token file_rules ([], n) = (ms, n')"
    by (cases "scan_rules re_search token file_rules ([], n)")
  have ext: "list_all (\<lambda>e. \<not> is_summary e) (out @ MatchIn (basename path) # map MatchName ms)"
    using Cons.prems by (auto simp: list_all_iff)
  show ?case
    using Cons.IH [OF ext, of True n'] Cons.IH [OF Cons.prems, of found n']
    by (simp add: fr sr)
qed

lemma scan_token_out: "list_all (\<lambda>e. \<not> is_summary e) (snd (scan_token re_search token rules))"
proof -
  obtain found n out where sf: "scan_files re_search token rules (False, 0, []) = (found, n, out)"
    by (cases "scan_files re_search token rules (False, 0, [])")
  have "list_all (\<lambda>e. \<not> is_summary e) out"
    using scan_files_out [of "[]" re_search token rules False 0] sf by simp
  then show ?thesis by (simp add: scan_token_def sf)
qed

lemma scan_lines_out:
  "list_all (\<lambda>e. \<not> is_summary e) out \<Longrightarrow>
     list_all (\<lambda>e. \<not> is_summary e) (snd (snd (scan_lines re_search rules ls (t, m, out))))"
proof (induction ls arbitrary: t m out)
  case Nil
  then show ?case by simp
next
  case (Cons l ls)
  obtain k printed where st: "scan_token re_search (strip l) rules = (k, printed)"
    by (cases "scan_token re_search (strip l) rules")
  have "list_all (\<lambda>e. \<not> is_summary e) printed"
    using scan_token_out [of re_search "strip l" rules] st by simp
  then have ext: "list_all (\<lambda>e. \<not> is_summary e) (out @ [Separator, TokenLine (strip l)] @ printed)"
    using Cons.prems by simp
  show ?case
    using Cons.IH [OF ext, of "t + 1" "m + k"] Cons.IH [OF Cons.prems, of t m]
    by (simp add: st Let_def)
qed

lemma filter_none: "list_all (\<lambda>e. \<not> P e) xs \<Longrightarrow> filter P xs = []"
  by (induction xs) auto

lemma summary_lines:
  "list_all (\<lambda>e. \<not> is_summary e) printed \<Longrightarrow>
     filter is_summary (printed @ print_summary tokens matches)
       = [ScanComplete, TokensScanned tokens, TotalMatches matches]"
  by (simp add: filter_none print_summary_def)

text \<open>The definitions that a run on concrete input unfolds.\<close>

lemmas run_defs = main_def load_rules_def glob_yaml_def glob_path_def rule_doc_def rule_entry_def
  load_item_def literal_compile_def scan_file_def scan_token_def strip_def isspace_def
  basename_def print_summary_def literal_search_def sublist_Cons_right example_fs_def
  example_rules_def

lemma example_load:
  "load_rules literal_compile ''/r'' (rule_dirs example_fs ''/r'')
     = Inr ([(''/r/a.yml'', [(YStr ''n'', ''abc'')])], 1, [])"
  by (simp add: run_defs)

lemma example_load_empty:
  "load_rules literal_compile ''/empty'' (rule_dirs example_fs ''/empty'')
     = Inr ([], 0, [NoYamlFiles ''/empty''])"
  by (simp add: run_defs)

text \<open>A run over the token file: the blank line is not counted.\<close>

lemma example_file_run:
  "main literal_compile literal_search example_fs
     \<lparr>arg_token = None, arg_file = Some ''tokens.txt'', arg_directory = ''/r'', arg_no_color = False\<rparr>
     = Finished 0 [LoadingRules, LoadedPatterns 1,
         Separator, TokenLine ''xabcx'', MatchIn ''a.yml'', MatchName (YStr ''n''),
         Separator, TokenLine ''zzz'', NoMatches,
         Separator, ScanComplete, TokensScanned 2, TotalMatches 1]"
  by (simp add: run_defs)

section \<open>No rules, no scan\<close>

text \<open>
  C7. In every run that loads the rules (a token or a token file was given) and gets the count
  zero, \<open>main\<close> prints the error of line 184 after what the loader printed and exits with
  status 1; none of the lines it printed is a line of the scanner.
\<close>

theorem no_rules_exit:
  assumes "given (arg_token a) \<noteq> None \<or> given (arg_file a) \<noteq> None"
    and "load_rules re_compile (arg_directory a) (rule_dirs fs (arg_directory a)) = Inr (rules, 0, loaded)"
  shows "main re_compile re_search fs a = Finished 1 (LoadingRules # loaded @ [NoValidRules])
    \<and> list_all (\<lambda>e. \<not> is_scan_event e) (LoadingRules # loaded @ [NoValidRules])"
  using assms load_rules_out [OF assms(2)]
  by (auto simp: main_def)

theorem no_rules_exit_witness:
  "main literal_compile literal_search example_fs
     \<lparr>arg_token = Some ''abc'', arg_file = None, arg_directory = ''/empty'', arg_no_color = False\<rparr>
     = Finished 1 [LoadingRules, NoYamlFiles ''/empty'', NoValidRules]"
  using no_rules_exit [where re_compile = literal_compile and re_search = literal_search
      and fs = example_fs and rules = "[]" and loaded = "[NoYamlFiles ''/empty'']"
      and a = "\<lparr>arg_token = Some ''abc'', arg_file = None, arg_directory = ''/empty'',
                 arg_no_color = False\<rparr>"]
    example_load_empty
  by simp

section \<open>A token file that does not exist\<close>

text \<open>
  C8. In a run on a token file (no token given, the rules loaded with a count that is not
  zero) whose path does not exist, \<open>scan_file\<close> prints the error of line 110 and returns: no
  token is scanned, no summary is printed, and \<open>main\<close> returns, which is exit status 0.
\<close>

theorem missing_token_file:
  assumes "given (arg_token a) = None"
    and "given (arg_file a) = Some path"
    and "token_files fs path = Missing"
    and "load_rules re_compile (arg_directory a) (rule_dirs fs (arg_directory a))
           = Inr (rules, total_rules, loaded)"
    and "total_rules \<noteq> 0"
  shows "scan_file re_search fs path rules = Inr [InputFileNotFound]
    \<and> main re_compile re_search fs a =
        Finished 0 (LoadingRules # loaded @ [LoadedPatterns total_rules, InputFileNotFound])"
  using assms by (simp add: main_def scan_file_def)

theorem missing_token_file_witness:
  "token_files example_fs ''gone.txt'' = Missing
   \<and> main literal_compile literal_search example_fs
       \<lparr>arg_token = None, arg_file = Some ''gone.txt'', arg_directory = ''/r'', arg_no_color = False\<rparr>
       = Finished 0 [LoadingRules, LoadedPatterns 1, InputFileNotFound]"
proof -
  have missing: "token_files example_fs ''gone.txt'' = Missing"
    by (simp add: example_fs_def)
  show ?thesis
    using missing_token_file [where re_compile = literal_compile and re_search = literal_search
        and fs = example_fs and path = "''gone.txt''" and total_rules = 1 and loaded = "[]"
        and rules = "[(''/r/a.yml'', [(YStr ''n'', ''abc'')])]"
        and a = "\<lparr>arg_token = None, arg_file = Some ''gone.txt'', arg_directory = ''/r'',
                   arg_no_color = False\<rparr>"]
      example_load missing
    by simp
qed

section \<open>The run summary\<close>

text \<open>
  C9, as the program has it. In every run on a single token, and in every run on a token file
  that exists and can be read, once the rules are loaded with a count that is not zero, the
  run ends with exit status 0 and its output ends with the run summary; the lines before it
  hold no line of a summary, so the summary lines of the whole output are those of one
  summary.
\<close>

theorem summary_once:
  assumes "load_rules re_compile (arg_directory a) (rule_dirs fs (arg_directory a))
             = Inr (rules, total_rules, loaded)"
    and "total_rules \<noteq> 0"
    and "given (arg_token a) = Some token
         \<or> given (arg_token a) = None \<and> given (arg_file a) = Some path \<and> token_files fs path = Lines ls"
  shows "\<exists>printed tokens matches.
           main re_compile re_search fs a = Finished 0 (printed @ print_summary tokens matches)
           \<and> list_all (\<lambda>e. \<not> is_summary e) printed
           \<and> filter is_summary (printed @ print_summary tokens matches)
               = [ScanComplete, TokensScanned tokens, TotalMatches matches]"
proof -
  have loaded: "list_all (\<lambda>e. \<not> is_summary e) loaded"
    using load_rules_out [OF assms(1)] by (rule not_scan_not_summary)
  from assms(3) show ?thesis
  proof
    assume tok: "given (arg_token a) = Some token"
    obtain k printed where st: "scan_token re_search token rules = (k, printed)"
      by (cases "scan_token re_search token rules")
    have p: "list_all (\<lambda>e. \<not> is_summary e) printed"
      using scan_token_out [of re_search token rules] st by simp
    let ?pre = "LoadingRules # loaded @ [LoadedPatterns total_rules, TokenLine token] @ printed"
    have run: "main re_compile re_search fs a = Finished 0 (?pre @ print_summary 1 k)"
      using assms(1,2) tok by (simp add: main_def st)
    have pre: "list_all (\<lambda>e. \<not> is_summary e) ?pre"
      using loaded p by simp
    show ?thesis
      using run pre summary_lines [OF pre] by blast
  next
    assume fl: "given (arg_token a) = None \<and> given (arg_file a) = Some path
      \<and> token_files fs path = Lines ls"
    obtain t m out where sl: "scan_lines re_search rules ls (0, 0, []) = (t, m, out)"
      by (cases "scan_lines re_search rules ls (0, 0, [])")
    have o: "list_all (\<lambda>e. \<not> is_summary e) out"
      using scan_lines_out [of "[]" re_search rules ls 0 0] sl by simp
    let ?pre = "LoadingRules # loaded @ [LoadedPatterns total_rules] @ out"
    have run: "main re_compile re_search fs a = Finished 0 (?pre @ print_summary t m)"
      using assms(1,2) fl by (simp add: main_def scan_file_def sl)
    have pre: "list_all (\<lambda>e. \<not> is_summary e) ?pre"
      using loaded o by simp
    show ?thesis
      using run pre summary_lines [OF pre] by blast
  qed
qed

theorem summary_once_witness:
  "token_files example_fs ''tokens.txt''
      = Lines [''xabcx'' @ [CHR 0x0A], [CHR 0x0A], ''zzz'' @ [CHR 0x0A]]
   \<and> (\<exists>printed tokens matches.
         main literal_compile literal_search example_fs
           \<lparr>arg_token = None, arg_file = Some ''tokens.txt'', arg_directory = ''/r'',
             arg_no_color = False\<rparr>
           = Finished 0 (printed @ print_summary tokens matches)
         \<and> list_all (\<lambda>e. \<not> is_summary e) printed
         \<and> filter is_summary (printed @ print_summary tokens matches)
             = [ScanComplete, TokensScanned tokens, TotalMatches matches])"
proof -
  have present: "token_files example_fs ''tokens.txt''
      = Lines [''xabcx'' @ [CHR 0x0A], [CHR 0x0A], ''zzz'' @ [CHR 0x0A]]"
    by (simp add: example_fs_def)
  show ?thesis
    using summary_once [where re_compile = literal_compile and re_search = literal_search
        and fs = example_fs and path = "''tokens.txt''" and total_rules = 1 and loaded = "[]"
        and rules = "[(''/r/a.yml'', [(YStr ''n'', ''abc'')])]"
        and ls = "[''xabcx'' @ [CHR 0x0A], [CHR 0x0A], ''zzz'' @ [CHR 0x0A]]"
        and a = "\<lparr>arg_token = None, arg_file = Some ''tokens.txt'', arg_directory = ''/r'',
                   arg_no_color = False\<rparr>"]
      example_load present
    by simp
qed

text \<open>The claim as the specification words it fails in the run on a token file that does not
  exist: the run ends with status 0 and no summary was printed.\<close>

theorem summary_once_counterexample:
  "main literal_compile literal_search example_fs
     \<lparr>arg_token = None, arg_file = Some ''missing.txt'', arg_directory = ''/r'', arg_no_color = False\<rparr>
     = Finished 0 [LoadingRules, LoadedPatterns 1, InputFileNotFound]"
  by (simp add: run_defs)

section \<open>A token and a token file together\<close>

text \<open>
  C10, as the program has it. In every run that is given a token that is not empty, the token
  file plays no part: the run ends as the run without the file argument does, on any token
  files whatever, and when the rules are loaded with a count that is not zero it scans the
  token alone and prints the summary for one token.
\<close>

theorem token_precedence:
  assumes "arg_token a = Some token" and "token \<noteq> []"
  shows "(rule_dirs fs' = rule_dirs fs \<longrightarrow>
            main re_compile re_search fs a = main re_compile re_search fs' (a\<lparr>arg_file := None\<rparr>))
    \<and> (load_rules re_compile (arg_directory a) (rule_dirs fs (arg_directory a))
            = Inr (rules, total_rules, loaded)
          \<and> total_rules \<noteq> 0 \<longrightarrow>
        main re_compile re_search fs a =
          Finished 0 (LoadingRules # loaded @ [LoadedPatterns total_rules, TokenLine token]
            @ snd (scan_token re_search token rules)
            @ print_summary 1 (fst (scan_token re_search token rules))))"
proof -
  have tok: "given (arg_token a) = Some token"
    using assms by (cases token) simp_all
  show ?thesis
    using tok by (auto simp: main_def split: sum.splits prod.splits)
qed

theorem token_precedence_witness:
  "main literal_compile literal_search example_fs
     \<lparr>arg_token = Some ''xabcx'', arg_file = Some ''tokens.txt'', arg_directory = ''/r'',
       arg_no_color = False\<rparr>
     = Finished 0 [LoadingRules, LoadedPatterns 1, TokenLine ''xabcx'',
         MatchIn ''a.yml'', MatchName (YStr ''n''),
         Separator, ScanComplete, TokensScanned 1, TotalMatches 1]
   \<and> main literal_compile literal_search example_fs
     \<lparr>arg_token = Some ''xabcx'', arg_file = Some ''tokens.txt'', arg_directory = ''/r'',
       arg_no_color = False\<rparr>
     = main literal_compile literal_search (example_fs\<lparr>token_files := (\<lambda>p. Missing)\<rparr>)
     \<lparr>arg_token = Some ''xabcx'', arg_file = None, arg_directory = ''/r'', arg_no_color = False\<rparr>"
proof -
  have scan: "scan_token literal_search ''xabcx'' [(''/r/a.yml'', [(YStr ''n'', ''abc'')])]
      = (1, [MatchIn ''a.yml'', MatchName (YStr ''n'')])"
    by (simp add: scan_token_def basename_def literal_search_def sublist_Cons_right)
  show ?thesis
    using token_precedence [where re_compile = literal_compile and re_search = literal_search
        and fs = example_fs and fs' = "example_fs\<lparr>token_files := (\<lambda>p. Missing)\<rparr>"
        and token = "''xabcx''" and total_rules = 1 and loaded = "[]"
        and rules = "[(''/r/a.yml'', [(YStr ''n'', ''abc'')])]"
        and a = "\<lparr>arg_token = Some ''xabcx'', arg_file = Some ''tokens.txt'',
                   arg_directory = ''/r'', arg_no_color = False\<rparr>"]
      example_load scan
    by (auto simp: print_summary_def)
qed

text \<open>The claim as the specification words it fails for the empty token: line 189 takes it
  for no token, and the run scans the token file.\<close>

theorem token_precedence_counterexample:
  "main literal_compile literal_search example_fs
     \<lparr>arg_token = Some '''', arg_file = Some ''tokens.txt'', arg_directory = ''/r'', arg_no_color = False\<rparr>
     = Finished 0 [LoadingRules, LoadedPatterns 1,
         Separator, TokenLine ''xabcx'', MatchIn ''a.yml'', MatchName (YStr ''n''),
         Separator, TokenLine ''zzz'', NoMatches,
         Separator, ScanComplete, TokensScanned 2, TotalMatches 1]"
  by (simp add: run_defs)

end
